theory Spec2Isabelle
  imports Complex_Main
begin

section \<open>Python string and path primitives used by app.py\<close>

text \<open>
  Strings are byte strings restricted to ASCII text; \<open>py_isspace\<close> lists the ASCII
  characters that Python's \<open>str.strip()\<close> and \<open>str.split()\<close> treat as whitespace.
\<close>

definition py_isspace :: "char \<Rightarrow> bool" where
  "py_isspace c = (c \<in> set [CHR 0x09, CHR 0x0A, CHR 0x0B, CHR 0x0C, CHR 0x0D,
                              CHR 0x1C, CHR 0x1D, CHR 0x1E, CHR 0x1F, CHR '' ''])"

definition py_strip :: "string \<Rightarrow> string" where
  "py_strip s = rev (dropWhile py_isspace (rev (dropWhile py_isspace s)))"

definition is_digit :: "char \<Rightarrow> bool" where
  "is_digit c = (c \<in> set ''0123456789'')"

definition is_upper :: "char \<Rightarrow> bool" where
  "is_upper c = (c \<in> set ''ABCDEFGHIJKLMNOPQRSTUVWXYZ'')"

definition is_lower :: "char \<Rightarrow> bool" where
  "is_lower c = (c \<in> set ''abcdefghijklmnopqrstuvwxyz'')"

definition lower_char :: "char \<Rightarrow> char" where
  "lower_char c =
     (case map_of (zip ''ABCDEFGHIJKLMNOPQRSTUVWXYZ'' ''abcdefghijklmnopqrstuvwxyz'') c of
        Some d \<Rightarrow> d
      | None \<Rightarrow> c)"

definition py_lower :: "string \<Rightarrow> string" where
  "py_lower s = map lower_char s"

definition digit_val :: "char \<Rightarrow> nat" where
  "digit_val c = (case map_of (zip ''0123456789'' [0, 1, 2, 3, 4, 5, 6, 7, 8, 9]) c of
                    Some d \<Rightarrow> d
                  | None \<Rightarrow> 0)"

definition digit_char :: "nat \<Rightarrow> char" where
  "digit_char d = ''0123456789'' ! (d mod 10)"

text \<open>\<open>str(n)\<close> for a non-negative integer: its decimal digits.\<close>

fun str_nat :: "nat \<Rightarrow> string" where
  "str_nat n = (if n < 10 then [digit_char n] else str_nat (n div 10) @ [digit_char (n mod 10)])"

declare str_nat.simps [simp del]

text \<open>\<open>s.split(sep)\<close> with an explicit one-character separator.\<close>

fun split_on :: "char \<Rightarrow> string \<Rightarrow> string list" where
  "split_on sep [] = [[]]"
| "split_on sep (c # cs) =
     (if c = sep then [] # split_on sep cs
      else (case split_on sep cs of
              [] \<Rightarrow> [[c]]
            | w # ws \<Rightarrow> (c # w) # ws))"

text \<open>\<open>s.split()\<close>: the maximal runs of non-whitespace characters.\<close>

fun py_words :: "string \<Rightarrow> string \<Rightarrow> string list" where
  "py_words w [] = (if w = [] then [] else [w])"
| "py_words w (c # cs) =
     (if py_isspace c then (if w = [] then py_words [] cs else w # py_words [] cs)
      else py_words (w @ [c]) cs)"

fun join_with :: "string \<Rightarrow> string list \<Rightarrow> string" where
  "join_with sep [] = []"
| "join_with sep [w] = w"
| "join_with sep (w # v # ws) = w @ sep @ join_with sep (v # ws)"

text \<open>
  \<open>filename.rsplit('.', 1)[1]\<close>: the text after the last dot. Without a dot the list
  has one element and the index raises \<open>IndexError\<close>, which is \<open>None\<close> here.
\<close>

definition rsplit_dot_1 :: "string \<Rightarrow> string option" where
  "rsplit_dot_1 s =
     (if CHR ''.'' \<in> set s then Some (rev (takeWhile (\<lambda>c. c \<noteq> CHR ''.'') (rev s))) else None)"

text \<open>\<open>os.path.join\<close>, \<open>os.path.dirname\<close>, \<open>os.path.basename\<close> (posixpath).\<close>

definition path_join :: "string \<Rightarrow> string \<Rightarrow> string" where
  "path_join a b =
     (if b \<noteq> [] \<and> hd b = CHR ''/'' then b
      else if a = [] \<or> last a = CHR ''/'' then a @ b
      else a @ ''/'' @ b)"

definition basename :: "string \<Rightarrow> string" where
  "basename p = rev (takeWhile (\<lambda>c. c \<noteq> CHR ''/'') (rev p))"

definition dirname :: "string \<Rightarrow> string" where
  "dirname p =
     (let head = rev (dropWhile (\<lambda>c. c \<noteq> CHR ''/'') (rev p)) in
      if head \<noteq> [] \<and> \<not> list_all (\<lambda>c. c = CHR ''/'') head
      then rev (dropWhile (\<lambda>c. c = CHR ''/'') (rev head))
      else head)"

text \<open>
  \<open>os.path.splitext(p)[0]\<close>: the path without its extension. A name made of leading
  dots only (as \<open>.pdf\<close>) has no extension.
\<close>

definition splitext_root :: "string \<Rightarrow> string" where
  "splitext_root p =
     (let name = basename p;
          ext = rev (takeWhile (\<lambda>c. c \<noteq> CHR ''.'') (rev name));
          stem = take (length name - length ext - 1) name
      in if CHR ''.'' \<in> set name \<and> \<not> list_all (\<lambda>c. c = CHR ''.'') stem
         then take (length p - length ext - 1) p
         else p)"

text \<open>
  The component loop of \<open>posixpath.normpath\<close>: empty and \<open>.\<close> components are skipped,
  \<open>..\<close> removes the component before it; at the start of a relative path (or after
  another \<open>..\<close>) it is kept, at the root of an absolute path it is dropped.
\<close>

fun norm_comps :: "bool \<Rightarrow> string list \<Rightarrow> string list \<Rightarrow> string list" where
  "norm_comps initial_slashes new_comps [] = new_comps"
| "norm_comps initial_slashes new_comps (part # comps) =
     (if part = [] \<or> part = ''.'' then norm_comps initial_slashes new_comps comps
      else if part \<noteq> ''..'' \<or> (\<not> initial_slashes \<and> new_comps = [])
              \<or> (new_comps \<noteq> [] \<and> last new_comps = ''..'')
      then norm_comps initial_slashes (new_comps @ [part]) comps
      else if new_comps \<noteq> [] then norm_comps initial_slashes (butlast new_comps) comps
      else norm_comps initial_slashes new_comps comps)"

definition isabs :: "string \<Rightarrow> bool" where
  "isabs p = (p \<noteq> [] \<and> hd p = CHR ''/'')"

definition normpath :: "string \<Rightarrow> string" where
  "normpath p =
     (if p = [] then ''.''
      else let slashes = (if isabs p then (if take 2 p = ''//'' \<and> take 3 p \<noteq> ''///'' then ''//'' else ''/'')
                          else []);
               q = slashes @ join_with ''/'' (norm_comps (isabs p) [] (split_on CHR ''/'' p))
           in if q = [] then ''.'' else q)"

text \<open>
  The place in the file system that an absolute path names, as the list of directory
  names from the root down to the file (no symbolic links, and every directory a
  \<open>..\<close> steps out of exists).
\<close>

definition locate :: "string \<Rightarrow> string list" where
  "locate p = norm_comps True [] (split_on CHR ''/'' p)"

text \<open>A location is inside the storage root when the root's location is a prefix of it.\<close>

definition inside :: "string \<Rightarrow> string list \<Rightarrow> bool" where
  "inside folder loc = (take (length (locate folder)) loc = locate folder)"

section \<open>Database models\<close>

record repository =
  repo_id :: nat
  repo_name :: string
  created_at :: nat
  user_id :: string

record paper =
  paper_id :: nat
  title :: string
  original_filename :: string
  filepath :: string
  paper_notes :: "string option"
  last_opened :: "nat option"
  last_page_seen :: "int option"
  uploaded_at :: nat
  repository_id :: nat

text \<open>
  The state a request sees and changes: the committed rows of the two tables and the
  regular files on disk, each file under the location of its absolute path.
  \<open>UPLOAD_FOLDER\<close> is an argument of every handler that touches the disk.
\<close>

record state =
  repositories :: "repository list"
  papers :: "paper list"
  files :: "string list \<Rightarrow> string option"

definition init_state :: state where
  "init_state = \<lparr>repositories = [], papers = [], files = (\<lambda>_. None)\<rparr>"

datatype body =
    ErrorMsg string
  | Message string
  | RepoJson repository "paper list"
  | PaperJson paper
  | FileContent string
  | ExtractedText string
  | NotFound
  | InternalServerError

type_synonym response = "nat \<times> body"

text \<open>
  An integer primary key without AUTOINCREMENT: SQLite gives a new row one more than
  the largest key in the table, and 1 in an empty table.
\<close>

definition next_id :: "nat list \<Rightarrow> nat" where
  "next_id ids = Suc (foldr max ids 0)"

definition find_repository :: "state \<Rightarrow> nat \<Rightarrow> repository option" where
  "find_repository s rid = find (\<lambda>r. repo_id r = rid) (repositories s)"

definition find_paper :: "state \<Rightarrow> nat \<Rightarrow> paper option" where
  "find_paper s pid = find (\<lambda>p. paper_id p = pid) (papers s)"

definition papers_of :: "state \<Rightarrow> nat \<Rightarrow> paper list" where
  "papers_of s rid = filter (\<lambda>p. repository_id p = rid) (papers s)"

section \<open>Repository routes\<close>

text \<open>
  \<open>create_repository\<close> (POST /api/repository/new). \<open>uid\<close> is \<open>g.user_id\<close>, the caller the
  authentication decorator let through; \<open>is_json\<close> is \<open>request.is_json\<close>; \<open>name_field\<close> is
  the body's \<open>name\<close> when it is a JSON string (\<open>None\<close> when the key is missing); \<open>now\<close> is
  the clock reading behind \<open>datetime.utcnow\<close>.
\<close>

definition create_repository ::
  "string \<Rightarrow> bool \<Rightarrow> string option \<Rightarrow> nat \<Rightarrow> state \<Rightarrow> response \<times> state" where
  "create_repository uid is_json name_field now s =
     (if \<not> is_json then ((400, ErrorMsg ''Content-Type must be application/json''), s)
      else
        let name = py_strip (case name_field of None \<Rightarrow> [] | Some n \<Rightarrow> n) in
        if name = [] then
          ((400, ErrorMsg ''Repository name is required and cannot be empty''), s)
        else
          (case find (\<lambda>r. repo_name r = name \<and> user_id r = uid) (repositories s) of
             Some existing_repo \<Rightarrow>
               ((409, ErrorMsg ''Repository with this name already exists''), s)
           | None \<Rightarrow>
               let new_repo = \<lparr>repo_id = next_id (map repo_id (repositories s)),
                               repo_name = name, created_at = now, user_id = uid\<rparr>
               in ((201, RepoJson new_repo []),
                   s\<lparr>repositories := repositories s @ [new_repo]\<rparr>)))"

text \<open>\<open>get_repository\<close> (GET /api/repository/<id>): the caller is not looked at.\<close>

definition get_repository :: "string \<Rightarrow> nat \<Rightarrow> state \<Rightarrow> response \<times> state" where
  "get_repository uid rid s =
     (case find_repository s rid of
        None \<Rightarrow> ((404, NotFound), s)
      | Some repo \<Rightarrow> ((200, RepoJson repo (papers_of s rid)), s))"

text \<open>
  \<open>api_delete_repository\<close> (POST or DELETE /api/repository/<id>/delete).
  \<open>db.session.delete(repo)\<close> removes the repository row and, through the relationship's
  \<open>cascade="all, delete-orphan"\<close>, the rows of its papers. Nothing here touches the disk.
\<close>

definition delete_rows :: "nat \<Rightarrow> state \<Rightarrow> state" where
  "delete_rows rid s =
     s\<lparr>repositories := filter (\<lambda>r. repo_id r \<noteq> rid) (repositories s),
       papers := filter (\<lambda>p. repository_id p \<noteq> rid) (papers s)\<rparr>"

definition quoted :: "string \<Rightarrow> string" where
  "quoted n = [CHR 0x22] @ n @ [CHR 0x22]"

definition api_delete_repository :: "string \<Rightarrow> nat \<Rightarrow> state \<Rightarrow> response \<times> state" where
  "api_delete_repository uid rid s =
     (case find_repository s rid of
        None \<Rightarrow> ((404, NotFound), s)
      | Some repo \<Rightarrow>
          ((200, Message (''Repository '' @ quoted (repo_name repo)
                          @ '' and all its papers deleted successfully'')),
           delete_rows rid s))"

text \<open>\<open>delete_repository\<close> (DELETE /api/repository/<id>), the route with the owner check.\<close>

definition delete_repository :: "string \<Rightarrow> nat \<Rightarrow> state \<Rightarrow> response \<times> state" where
  "delete_repository uid rid s =
     (case find_repository s rid of
        None \<Rightarrow> ((404, NotFound), s)
      | Some repo \<Rightarrow>
          if user_id repo \<noteq> uid then ((403, ErrorMsg ''Unauthorized access to repository''), s)
          else ((200, Message (''Repository '' @ quoted (repo_name repo) @ '' deleted'')),
                delete_rows rid s))"

section \<open>Paper routes\<close>

definition ALLOWED_EXTENSIONS :: "string list" where
  "ALLOWED_EXTENSIONS = [''pdf'', ''txt'', ''doc'', ''docx'']"

text \<open>
  \<open>allowed_file\<close> as app.py defines it at line 124; this definition replaces the function
  of the same name imported from \<open>utils.file_extractor\<close> at line 18.
\<close>

definition allowed_file :: "string \<Rightarrow> bool" where
  "allowed_file filename =
     (case rsplit_dot_1 filename of
        None \<Rightarrow> False
      | Some ext \<Rightarrow> py_lower ext \<in> set ALLOWED_EXTENSIONS)"

text \<open>
  \<open>werkzeug.utils.secure_filename\<close> on an ASCII name (where its Unicode normalisation
  changes nothing) on a POSIX system: path separators become spaces, whitespace runs become
  single underscores, every character outside \<open>A-Za-z0-9_.-\<close> is removed, and dots and
  underscores are stripped from both ends.
\<close>

definition filename_char :: "char \<Rightarrow> bool" where
  "filename_char c = (is_upper c \<or> is_lower c \<or> is_digit c \<or> c \<in> set ''_.-'')"

definition strip_chars :: "string \<Rightarrow> string \<Rightarrow> string" where
  "strip_chars cs s = rev (dropWhile (\<lambda>c. c \<in> set cs) (rev (dropWhile (\<lambda>c. c \<in> set cs) s)))"

definition secure_filename :: "string \<Rightarrow> string" where
  "secure_filename filename =
     strip_chars ''._''
       (filter filename_char
          (join_with ''_'' (py_words [] (map (\<lambda>c. if c = CHR ''/'' then CHR '' '' else c) filename))))"

text \<open>
  What the outside world contributes to one upload: \<open>stamp\<close> is the text
  \<open>datetime.now().strftime("%Y%m%d%H%M%S%f")\<close> returns, \<open>utcnow\<close> the clock reading stored as
  \<open>uploaded_at\<close>, \<open>save_raises\<close> whether \<open>file.save\<close> raises (disk full, no permission) and
  \<open>commit_raises\<close> whether \<open>db.session.commit\<close> raises for a reason of the database's own
  (locked, I/O error).
\<close>

record env =
  stamp :: string
  utcnow :: nat
  save_raises :: bool
  commit_raises :: bool

text \<open>The multipart form: the \<open>file\<close> part (its filename and bytes) and the \<open>title\<close> field.\<close>

record upload_form =
  form_file :: "(string \<times> string) option"
  form_title :: "string option"

datatype py_exception =
    ValueError
  | TypeError
  | OverflowError
  | IndexError
  | IOError
  | IntegrityError
  | OperationalError

text \<open>
  \<open>api_upload_paper\<close> (POST /api/paper/upload/<id>, and POST /api/repository/<id>/papers,
  which calls it). The file is written first; the row is added and committed after it.
  The commit raises \<open>IntegrityError\<close> when another paper already has the same \<open>filepath\<close>
  (the column is \<open>unique=True\<close>). The \<open>except\<close> branch rolls the session back and answers
  500; it does not remove the file.
\<close>

definition api_upload_paper ::
  "string \<Rightarrow> string \<Rightarrow> nat \<Rightarrow> upload_form \<Rightarrow> env \<Rightarrow> state \<Rightarrow> response \<times> state" where
  "api_upload_paper upload_folder uid rid form e s =
     (case find_repository s rid of
        None \<Rightarrow> ((404, NotFound), s)
      | Some repo \<Rightarrow>
          (case form_file form of
             None \<Rightarrow> ((400, ErrorMsg ''No file part''), s)
           | Some (file_filename, file_bytes) \<Rightarrow>
               if file_filename = [] then ((400, ErrorMsg ''No selected file''), s)
               else
                 let stripped = py_strip (case form_title form of None \<Rightarrow> [] | Some t \<Rightarrow> t);
                     paper_title = (if stripped = [] then splitext_root file_filename else stripped)
                 in
                 if \<not> allowed_file file_filename then ((400, ErrorMsg ''File type not allowed''), s)
                 else
                   let orig = secure_filename file_filename;
                       filename = stamp e @ ''_'' @ orig;
                       folder = path_join upload_folder (str_nat rid)
                   in
                   if save_raises e then ((500, ErrorMsg ''IOError''), s)
                   else
                     let s1 = s\<lparr>files := (files s)(locate (path_join folder filename) \<mapsto> file_bytes)\<rparr>;
                         new_paper = \<lparr>paper_id = next_id (map paper_id (papers s)),
                                       title = paper_title,
                                       original_filename = orig,
                                       filepath = path_join (str_nat rid) filename,
                                       paper_notes = None,
                                       last_opened = None,
                                       last_page_seen = Some 0,
                                       uploaded_at = utcnow e,
                                       repository_id = repo_id repo\<rparr>
                     in
                     if list_ex (\<lambda>p. filepath p = filepath new_paper) (papers s) then
                       ((500, ErrorMsg ''IntegrityError''), s1)
                     else if commit_raises e then ((500, ErrorMsg ''OperationalError''), s1)
                     else ((201, PaperJson new_paper), s1\<lparr>papers := papers s1 @ [new_paper]\<rparr>)))"

text \<open>
  JSON values as \<open>request.get_json()\<close> returns them: \<open>None\<close>, \<open>bool\<close>, \<open>int\<close>, \<open>float\<close>
  (finite ones as the rational number they are, and the two special values Python's parser
  accepts), \<open>str\<close>, and lists and dictionaries, whose contents play no part here.
\<close>

datatype json =
    JNull
  | JBool bool
  | JInt int
  | JFloat rat
  | JNaN
  | JInfinity
  | JStr string
  | JArray
  | JObject

text \<open>
  \<open>int(s)\<close> for an ASCII string, as CPython's \<open>PyLong_FromString\<close> reads it in base 10.
  The whitespace it skips at both ends is that of C's \<open>isspace\<close>: space, tab, line feed,
  vertical tab, form feed and carriage return, and not the separators 0x1C to 0x1F that
  \<open>str.strip()\<close> removes. One sign may come first, and the rest must be decimal digits,
  where single underscores may stand between digits. A text with more than 4300 digits is
  refused with \<open>ValueError\<close> (the default of \<open>sys.set_int_max_str_digits\<close>, Python 3.11 and
  the security releases before it).
\<close>

definition int_isspace :: "char \<Rightarrow> bool" where
  "int_isspace c = (c \<in> set [CHR 0x09, CHR 0x0A, CHR 0x0B, CHR 0x0C, CHR 0x0D, CHR '' ''])"

definition max_str_digits :: nat where
  "max_str_digits = 4300"

fun py_digits :: "bool \<Rightarrow> nat \<Rightarrow> string \<Rightarrow> nat option" where
  "py_digits after_digit acc [] = (if after_digit then Some acc else None)"
| "py_digits after_digit acc (c # cs) =
     (if is_digit c then py_digits True (10 * acc + digit_val c) cs
      else if c = CHR ''_'' \<and> after_digit then py_digits False acc cs
      else None)"

definition limited_digits :: "string \<Rightarrow> nat option" where
  "limited_digits ds =
     (if max_str_digits < length (filter is_digit ds) then None else py_digits False 0 ds)"

definition int_of_str :: "string \<Rightarrow> int option" where
  "int_of_str s =
     (case rev (dropWhile int_isspace (rev (dropWhile int_isspace s))) of
        [] \<Rightarrow> None
      | c # cs \<Rightarrow>
          if c = CHR ''-'' then map_option (\<lambda>n. - int n) (limited_digits cs)
          else if c = CHR ''+'' then map_option int (limited_digits cs)
          else map_option int (limited_digits (c # cs)))"

text \<open>\<open>int(v)\<close> for a JSON value: the integer, or the exception Python raises.\<close>

fun py_int :: "json \<Rightarrow> py_exception + int" where
  "py_int JNull = Inl TypeError"
| "py_int (JBool b) = Inr (if b then 1 else 0)"
| "py_int (JInt n) = Inr n"
| "py_int (JFloat q) = Inr (if q < 0 then - \<lfloor>- q\<rfloor> else \<lfloor>q\<rfloor>)"
| "py_int JNaN = Inl ValueError"
| "py_int JInfinity = Inl OverflowError"
| "py_int (JStr s) = (case int_of_str s of None \<Rightarrow> Inl ValueError | Some n \<Rightarrow> Inr n)"
| "py_int JArray = Inl TypeError"
| "py_int JObject = Inl TypeError"

datatype http_method = GET | PUT | POST | DELETE

text \<open>
  The JSON object of a PUT: for each of the two keys, \<open>None\<close> when the key is missing.
  The value of \<open>notes\<close> is a string or null.
\<close>

record update_body =
  body_notes :: "string option option"
  body_last_page_seen :: "json option"

text \<open>
  \<open>db.session.commit()\<close> after a change to one paper: the row with its key is replaced.
\<close>

definition commit_paper :: "paper \<Rightarrow> state \<Rightarrow> response \<times> state" where
  "commit_paper p s =
     ((200, PaperJson p),
      s\<lparr>papers := map (\<lambda>q. if paper_id q = paper_id p then p else q) (papers s)\<rparr>)"

text \<open>
  SQLite stores an INTEGER in 64 bits, and its driver raises \<open>OverflowError\<close> at the commit
  for a Python integer beyond them.
\<close>

definition sqlite_integer :: "int \<Rightarrow> bool" where
  "sqlite_integer n = (- (2 ^ 63) \<le> n \<and> n < 2 ^ 63)"

text \<open>
  \<open>api_paper_detail\<close> (GET, PUT or POST /api/paper/<id>). In the PUT branch the new notes
  are assigned to the session's object before \<open>last_page_seen\<close> is converted; the return in
  the \<open>except ValueError\<close> branch comes before the commit, and the request's session is
  discarded with its pending change when the request ends. Any other exception of \<open>int\<close>
  is not caught and ends the request with a 500, again before the commit, and so does the
  driver's \<open>OverflowError\<close> at the commit. A POST matches neither branch: the view returns
  nothing, which Flask answers with a 500.
\<close>

definition api_paper_detail ::
  "string \<Rightarrow> nat \<Rightarrow> http_method \<Rightarrow> update_body \<Rightarrow> nat \<Rightarrow> state \<Rightarrow> response \<times> state" where
  "api_paper_detail uid pid method data now s =
     (case find_paper s pid of
        None \<Rightarrow> ((404, NotFound), s)
      | Some paper \<Rightarrow>
          if method = GET then commit_paper (paper\<lparr>last_opened := Some now\<rparr>) s
          else if method = PUT then
            let paper1 = (case body_notes data of
                            None \<Rightarrow> paper
                          | Some v \<Rightarrow> paper\<lparr>paper_notes := v\<rparr>)
            in (case body_last_page_seen data of
                  None \<Rightarrow> commit_paper paper1 s
                | Some JNull \<Rightarrow> commit_paper (paper1\<lparr>last_page_seen := None\<rparr>) s
                | Some v \<Rightarrow>
                    (case py_int v of
                       Inl ValueError \<Rightarrow> ((400, ErrorMsg ''Invalid page number''), s)
                     | Inl other_exception \<Rightarrow> ((500, InternalServerError), s)
                     | Inr n \<Rightarrow>
                         if sqlite_integer n
                         then commit_paper (paper1\<lparr>last_page_seen := Some n\<rparr>) s
                         else ((500, InternalServerError), s)))
          else ((500, InternalServerError), s))"

text \<open>
  \<open>api_delete_paper\<close> (DELETE or POST /api/paper/<id>/delete): the file is removed when it
  exists, then the row.
\<close>

definition api_delete_paper :: "string \<Rightarrow> string \<Rightarrow> nat \<Rightarrow> state \<Rightarrow> response \<times> state" where
  "api_delete_paper upload_folder uid pid s =
     (case find_paper s pid of
        None \<Rightarrow> ((404, NotFound), s)
      | Some paper \<Rightarrow>
          let full_filepath = path_join upload_folder (filepath paper);
              s1 = (if files s (locate full_filepath) \<noteq> None
                    then s\<lparr>files := (files s)(locate full_filepath := None)\<rparr>
                    else s)
          in ((200, Message (''Paper '' @ quoted (title paper) @ '' deleted successfully'')),
              s1\<lparr>papers := filter (\<lambda>p. paper_id p \<noteq> pid) (papers s1)\<rparr>))"

text \<open>
  \<open>werkzeug.security.safe_join\<close> with one untrusted name, and \<open>send_from_directory\<close>: the
  name is refused when, normalised, it is absolute, is \<open>..\<close> or starts with \<open>../\<close>. The
  directory argument is trusted and joined as it is.
\<close>

definition safe_join :: "string \<Rightarrow> string \<Rightarrow> string option" where
  "safe_join directory filename =
     (let directory = (if directory = [] then ''.'' else directory);
          filename = (if filename \<noteq> [] then normpath filename else filename)
      in if isabs filename \<or> filename = ''..'' \<or> take 3 filename = ''../'' then None
         else Some (path_join directory filename))"

definition send_from_directory :: "string \<Rightarrow> string \<Rightarrow> state \<Rightarrow> response" where
  "send_from_directory directory path s =
     (case safe_join directory path of
        None \<Rightarrow> (404, NotFound)
      | Some full \<Rightarrow>
          (case files s (locate full) of
             None \<Rightarrow> (404, NotFound)
           | Some bytes \<Rightarrow> (200, FileContent bytes)))"

text \<open>
  \<open>api_serve_paper\<close> (GET, POST or PUT /api/uploads/<path:filepath>), a route without the
  authentication decorator. The directory part of the requested path goes into the
  trusted directory argument; only the last component is checked.
\<close>

definition api_serve_paper :: "string \<Rightarrow> string \<Rightarrow> state \<Rightarrow> response \<times> state" where
  "api_serve_paper upload_folder requested s =
     (let repo_subfolder = dirname requested;
          filename = basename requested;
          directory = path_join upload_folder repo_subfolder
      in (send_from_directory directory filename s, s))"

section \<open>Text extraction\<close>

text \<open>
  The three strategies live in \<open>utils/file_extractor.py\<close>, which is not part of the sources
  at hand, so they are parameters: each reads the bytes of the saved file and returns the
  extracted text, or raises (\<open>Inl\<close> with the exception's text).
\<close>

record extractors =
  extract_text_from_pdf :: "string \<Rightarrow> string + string"
  extract_text_from_docx :: "string \<Rightarrow> string + string"
  extract_text_from_image :: "string \<Rightarrow> string + string"

datatype strategy = PdfStrategy | DocxStrategy | ImageStrategy

text \<open>The \<open>if\<close>/\<open>elif\<close> chain on \<open>file_ext\<close> that \<open>upload_file\<close> and \<open>chat\<close> share.\<close>

definition choose_strategy :: "string \<Rightarrow> strategy option" where
  "choose_strategy file_ext =
     (if file_ext = ''pdf'' then Some PdfStrategy
      else if file_ext = ''docx'' then Some DocxStrategy
      else if file_ext \<in> set [''png'', ''jpg'', ''jpeg''] then Some ImageStrategy
      else None)"

fun run_strategy :: "extractors \<Rightarrow> strategy \<Rightarrow> string \<Rightarrow> string + string" where
  "run_strategy ex PdfStrategy bytes = extract_text_from_pdf ex bytes"
| "run_strategy ex DocxStrategy bytes = extract_text_from_docx ex bytes"
| "run_strategy ex ImageStrategy bytes = extract_text_from_image ex bytes"

text \<open>
  \<open>upload_file\<close> (POST /api/upload). The upload is saved under \<open>UPLOAD_FOLDER\<close> before the
  extension is looked at. \<open>os.remove\<close> is reached only when a strategy returned: the
  unsupported-type return and the \<open>except\<close> branch leave the file where it is, and so does
  the \<open>IndexError\<close> of line 203 (outside the \<open>try\<close>) for a sanitised name without a dot.
\<close>

definition upload_file ::
  "string \<Rightarrow> extractors \<Rightarrow> (string \<times> string) option \<Rightarrow> state \<Rightarrow> response \<times> state" where
  "upload_file upload_folder ex request_file s =
     (case request_file of
        None \<Rightarrow> ((400, ErrorMsg ''No file part in the request''), s)
      | Some (file_filename, file_bytes) \<Rightarrow>
          if file_filename = [] then ((400, ErrorMsg ''No file selected for uploading''), s)
          else if allowed_file file_filename then
            let filename = secure_filename file_filename;
                saved = locate (path_join upload_folder filename);
                s1 = s\<lparr>files := (files s)(saved \<mapsto> file_bytes)\<rparr>
            in (case rsplit_dot_1 filename of
                  None \<Rightarrow> ((500, InternalServerError), s1)
                | Some ext \<Rightarrow>
                    (case choose_strategy (py_lower ext) of
                       None \<Rightarrow> ((400, ErrorMsg ''Unsupported file type''), s1)
                     | Some strat \<Rightarrow>
                         (case run_strategy ex strat file_bytes of
                            Inl err \<Rightarrow> ((500, ErrorMsg (''Failed to process file: '' @ err)), s1)
                          | Inr extracted_text \<Rightarrow>
                              ((200, ExtractedText extracted_text),
                               s1\<lparr>files := (files s1)(saved := None)\<rparr>))))
          else ((400, ErrorMsg ''File type not allowed''), s))"

section \<open>The application as a whole\<close>

text \<open>
  One request to one of the routes above. The caller of an authenticated route is the
  user identifier the decorator stored in \<open>g.user_id\<close>.
\<close>

datatype request =
    CreateRepository bool "string option" nat
  | GetRepository nat
  | ApiDeleteRepository nat
  | DeleteRepository nat
  | UploadPaper nat upload_form env
  | PaperDetail nat http_method update_body nat
  | DeletePaper nat
  | ServePaper string
  | UploadFile "(string \<times> string) option"

fun handle :: "string \<Rightarrow> extractors \<Rightarrow> string \<Rightarrow> request \<Rightarrow> state \<Rightarrow> response \<times> state" where
  "handle upload_folder ex uid (CreateRepository is_json name_field now) s =
     create_repository uid is_json name_field now s"
| "handle upload_folder ex uid (GetRepository rid) s = get_repository uid rid s"
| "handle upload_folder ex uid (ApiDeleteRepository rid) s = api_delete_repository uid rid s"
| "handle upload_folder ex uid (DeleteRepository rid) s = delete_repository uid rid s"
| "handle upload_folder ex uid (UploadPaper rid form e) s =
     api_upload_paper upload_folder uid rid form e s"
| "handle upload_folder ex uid (PaperDetail pid method data now) s =
     api_paper_detail uid pid method data now s"
| "handle upload_folder ex uid (DeletePaper pid) s = api_delete_paper upload_folder uid pid s"
| "handle upload_folder ex uid (ServePaper requested) s = api_serve_paper upload_folder requested s"
| "handle upload_folder ex uid (UploadFile request_file) s =
     upload_file upload_folder ex request_file s"

text \<open>A sequence of requests, each with its caller, run from a state.\<close>

fun run :: "string \<Rightarrow> extractors \<Rightarrow> (string \<times> request) list \<Rightarrow> state \<Rightarrow> state" where
  "run upload_folder ex [] s = s"
| "run upload_folder ex ((uid, req) # rest) s =
     run upload_folder ex rest (snd (handle upload_folder ex uid req s))"

section \<open>Configuration, predicates and example states\<close>

text \<open>
  Lines 26-27 and 103-108 of app.py: the storage root and the database file both lie
  under \<open>BASE_DIR\<close>, the absolute path of the application's directory.
\<close>

definition UPLOAD_FOLDER :: "string \<Rightarrow> string" where
  "UPLOAD_FOLDER base_dir = path_join base_dir ''uploads''"

definition db_path :: "string \<Rightarrow> string" where
  "db_path base_dir = path_join (path_join base_dir ''instance'') ''research_repo.db''"




text \<open>
  The per-entity routes other than the two repository deletions: reading a repository,
  uploading into one, reading or updating a paper, deleting a paper.
\<close>

fun ownership_unchecked :: "request \<Rightarrow> bool" where
  "ownership_unchecked (GetRepository rid) = True"
| "ownership_unchecked (UploadPaper rid form e) = True"
| "ownership_unchecked (PaperDetail pid method data now) = True"
| "ownership_unchecked (DeletePaper pid) = True"
| "ownership_unchecked other = False"

text \<open>
  An installation in \<open>/srv/app\<close>, and the state after user U1 has created the repository
  Thesis and uploaded \<open>notes.docx\<close> into it.
\<close>

definition example_folder :: string where
  "example_folder = UPLOAD_FOLDER ''/srv/app''"

definition example_env :: env where
  "example_env = \<lparr>stamp = ''20240102030405000006'', utcnow = 5,
                   save_raises = False, commit_raises = False\<rparr>"

definition example_extractors :: extractors where
  "example_extractors =
     \<lparr>extract_text_from_pdf = (\<lambda>bytes. Inr bytes),
      extract_text_from_docx = (\<lambda>bytes. Inr bytes),
      extract_text_from_image = (\<lambda>bytes. Inl ''no text found'')\<rparr>"

definition notes_form :: upload_form where
  "notes_form = \<lparr>form_file = Some (''notes.docx'', ''BYTES''), form_title = None\<rparr>"

definition thesis_requests :: "(string \<times> request) list" where
  "thesis_requests =
     [(''U1'', CreateRepository True (Some ''Thesis'') 1),
      (''U1'', UploadPaper 1 notes_form example_env)]"

definition thesis_state :: state where
  "thesis_state = run example_folder example_extractors thesis_requests init_state"

definition notes_location :: "string list" where
  "notes_location = [''srv'', ''app'', ''uploads'', ''1'', ''20240102030405000006_notes.docx'']"

text \<open>The state right after start-up: no rows yet, and the database file on disk.\<close>

definition started_state :: state where
  "started_state =
     init_state\<lparr>files := (files init_state)(locate (db_path ''/srv/app'') \<mapsto> ''SQLite format 3'')\<rparr>"



text \<open>
  A name that is one path component: not empty, without a slash, and neither \<open>.\<close> nor
  \<open>..\<close>.
\<close>

definition plain_name :: "string \<Rightarrow> bool" where
  "plain_name w = (CHR ''/'' \<notin> set w \<and> w \<noteq> [] \<and> w \<noteq> ''.'' \<and> w \<noteq> ''..'')"

text \<open>
  Two invariants of the tables: no two repositories of one owner share a name, and every
  paper's \<open>repository_id\<close> is the key of a repository.
\<close>

definition repo_key :: "repository \<Rightarrow> string \<times> string" where
  "repo_key r = (repo_name r, user_id r)"

definition names_unique :: "state \<Rightarrow> bool" where
  "names_unique s = distinct (map repo_key (repositories s))"

definition papers_owned :: "state \<Rightarrow> bool" where
  "papers_owned s =
     list_all (\<lambda>p. repository_id p \<in> set (map repo_id (repositories s))) (papers s)"

text \<open>The example's state before the upload, and the paper the upload creates.\<close>

definition created_state :: state where
  "created_state = run example_folder example_extractors [hd thesis_requests] init_state"

definition notes_paper :: paper where
  "notes_paper =
     \<lparr>paper_id = 1, title = ''notes'', original_filename = ''notes.docx'',
      filepath = ''1/20240102030405000006_notes.docx'', paper_notes = None,
      last_opened = None, last_page_seen = Some 0, uploaded_at = 5, repository_id = 1\<rparr>"

section \<open>Properties\<close>

subsection \<open>Evaluating the model on concrete requests\<close>

lemmas string_defs =
  py_isspace_def py_strip_def is_digit_def is_upper_def is_lower_def lower_char_def py_lower_def
  digit_val_def digit_char_def rsplit_dot_1_def path_join_def basename_def dirname_def
  splitext_root_def isabs_def normpath_def locate_def inside_def filename_char_def
  strip_chars_def secure_filename_def str_nat.simps

lemmas route_defs =
  init_state_def next_id_def find_repository_def find_paper_def papers_of_def
  create_repository_def get_repository_def delete_rows_def quoted_def api_delete_repository_def
  delete_repository_def ALLOWED_EXTENSIONS_def allowed_file_def api_upload_paper_def
  int_of_str_def int_isspace_def max_str_digits_def limited_digits_def sqlite_integer_def
  commit_paper_def api_paper_detail_def api_delete_paper_def
  safe_join_def send_from_directory_def api_serve_paper_def choose_strategy_def upload_file_def
  UPLOAD_FOLDER_def db_path_def example_folder_def example_env_def notes_form_def

lemma thesis_state_eq:
  "thesis_state =
     \<lparr>repositories = [\<lparr>repo_id = 1, repo_name = ''Thesis'', created_at = 1, user_id = ''U1''\<rparr>],
      papers = [\<lparr>paper_id = 1, title = ''notes'', original_filename = ''notes.docx'',
                 filepath = ''1/20240102030405000006_notes.docx'', paper_notes = None,
                 last_opened = None, last_page_seen = Some 0, uploaded_at = 5,
                 repository_id = 1\<rparr>],
      files = (\<lambda>_. None)(notes_location \<mapsto> ''BYTES'')\<rparr>"
  unfolding thesis_state_def thesis_requests_def notes_location_def
  by (simp add: string_defs route_defs Let_def)

lemma created_state_eq:
  "created_state =
     \<lparr>repositories = [\<lparr>repo_id = 1, repo_name = ''Thesis'', created_at = 1, user_id = ''U1''\<rparr>],
      papers = [], files = (\<lambda>_. None)\<rparr>"
  unfolding created_state_def thesis_requests_def
  by (simp add: string_defs route_defs Let_def)

lemma thesis_upload:
  "api_upload_paper example_folder ''U1'' 1 notes_form example_env created_state
     = ((201, PaperJson notes_paper), thesis_state)"
  by (simp add: created_state_eq thesis_state_eq notes_paper_def notes_location_def
        string_defs route_defs Let_def)

lemma thesis_finds:
  "find_repository thesis_state 1
     = Some \<lparr>repo_id = 1, repo_name = ''Thesis'', created_at = 1, user_id = ''U1''\<rparr>"
  "find_paper thesis_state 1 = Some notes_paper"
  by (simp_all add: thesis_state_eq notes_paper_def find_repository_def find_paper_def)



subsection \<open>Repository names are unique per owner\<close>





subsection \<open>Deleting a repository\<close>

text \<open>
  Claim C1. Deleting the repository Thesis, which owns one paper, answers 200 and removes
  the repository row and the paper row, and a later read of either answers 404; the
  paper's file, however, is on disk after the deletion exactly as before it, and the
  file-serving route still returns its bytes.
\<close>

theorem api_delete_repository_leaves_file:
  "(let (r, s) = api_delete_repository ''U1'' 1 thesis_state
    in fst r = 200 \<and> repositories s = [] \<and> papers s = []
       \<and> fst (get_repository ''U1'' 1 s) = (404, NotFound)
       \<and> fst (api_paper_detail ''U1'' 1 GET \<lparr>body_notes = None, body_last_page_seen = None\<rparr> 9 s)
           = (404, NotFound)
       \<and> files thesis_state notes_location = Some ''BYTES''
       \<and> files s notes_location = Some ''BYTES''
       \<and> fst (api_serve_paper example_folder ''1/20240102030405000006_notes.docx'' s)
           = (200, FileContent ''BYTES''))"
  by (simp add: thesis_state_eq notes_location_def string_defs route_defs Let_def)

text \<open>
  Claim C3. The repository Thesis belongs to U1. The route
  \<open>/api/repository/<id>/delete\<close> deletes it and its paper for the caller U2 with a 200,
  where the route \<open>DELETE /api/repository/<id>\<close> answers the same caller with 403 and
  leaves the state as it is.
\<close>

theorem api_delete_repository_by_other_user:
  "map user_id (repositories thesis_state) = [''U1'']
   \<and> fst (fst (api_delete_repository ''U2'' 1 thesis_state)) = 200
   \<and> repositories (snd (api_delete_repository ''U2'' 1 thesis_state)) = []
   \<and> papers (snd (api_delete_repository ''U2'' 1 thesis_state)) = []
   \<and> delete_repository ''U2'' 1 thesis_state
       = ((403, ErrorMsg ''Unauthorized access to repository''), thesis_state)"
  by (simp add: thesis_state_eq string_defs route_defs Let_def)

subsection \<open>Paths and the storage root\<close>

text \<open>
  Claim C2. With the storage root \<open>/srv/app/uploads\<close>, the request
  \<open>/api/uploads/../instance/research_repo.db\<close> names the location
  \<open>/srv/app/instance/research_repo.db\<close>, which is not inside the root, and the file-serving
  route answers it with 200 and the bytes of that file, the application's database.
\<close>

theorem api_serve_paper_escapes_root:
  "(let requested = ''../instance/research_repo.db'';
        target = locate (path_join example_folder requested)
    in target = [''srv'', ''app'', ''instance'', ''research_repo.db'']
       \<and> inside example_folder target = False
       \<and> fst (api_serve_paper example_folder requested started_state)
           = (200, FileContent ''SQLite format 3''))"
  by (simp add: started_state_def string_defs route_defs Let_def)

subsection \<open>Upload\<close>

text \<open>
  Claim C4. An upload of \<open>notes.docx\<close> whose commit raises answers 500 and adds no paper
  row, but the file written before the commit, which was not there before the request,
  stays on disk.
\<close>

theorem api_upload_paper_commit_failure_leaves_file:
  "(let s0 = snd (create_repository ''U1'' True (Some ''Thesis'') 1 init_state);
        (r, s) = api_upload_paper example_folder ''U1'' 1 notes_form
                   (example_env\<lparr>commit_raises := True\<rparr>) s0
    in fst r = 500 \<and> papers s = [] \<and> files s0 notes_location = None
       \<and> files s notes_location = Some ''BYTES'')"
  by (simp add: notes_location_def string_defs route_defs Let_def)

subsection \<open>Updating a paper\<close>

text \<open>
  Claim C5. A PUT whose \<open>last_page_seen\<close> is a JSON array, a value that is present, not
  null and not an integer, is answered with 500 and not with 400; the stored paper, its
  notes included, stays as it was.
\<close>

theorem api_paper_detail_array_page:
  "api_paper_detail ''U1'' 1 PUT
     \<lparr>body_notes = Some (Some ''draft''), body_last_page_seen = Some JArray\<rparr> 9 thesis_state
   = ((500, InternalServerError), thesis_state)"
  by (simp add: thesis_state_eq string_defs route_defs Let_def)

subsection \<open>Extraction\<close>

text \<open>
  Claim C6. The \<open>if\<close>/\<open>elif\<close> chain sends \<open>png\<close> to the image strategy, but \<open>upload_file\<close>
  never gets there: for \<open>scan.png\<close> it answers 400, file type not allowed, whatever the
  strategies are, and changes nothing.
\<close>

theorem upload_file_refuses_image:
  "choose_strategy ''png'' = Some ImageStrategy
   \<and> upload_file upload_folder ex (Some (''scan.png'', bytes)) s
       = ((400, ErrorMsg ''File type not allowed''), s)"
  by (simp add: string_defs route_defs Let_def)

text \<open>
  Claim C8. \<open>upload_file\<close> on \<open>notes.txt\<close> answers 400, unsupported file type, and the
  temporary copy it saved under the storage root is still there afterwards; the same holds
  for \<open>scan.pdf\<close> when the pdf strategy raises, which is answered with 500.
\<close>

theorem upload_file_leaves_file:
  "(let (r, s) = upload_file example_folder ex (Some (''notes.txt'', ''TEXT'')) init_state;
        ex' = ex\<lparr>extract_text_from_pdf := (\<lambda>bytes. Inl ''corrupt'')\<rparr>;
        (r', s') = upload_file example_folder ex' (Some (''scan.pdf'', ''PDF'')) init_state
    in r = (400, ErrorMsg ''Unsupported file type'')
       \<and> files s [''srv'', ''app'', ''uploads'', ''notes.txt''] = Some ''TEXT''
       \<and> r' = (500, ErrorMsg ''Failed to process file: corrupt'')
       \<and> files s' [''srv'', ''app'', ''uploads'', ''scan.pdf''] = Some ''PDF'')"
  by (simp add: string_defs route_defs Let_def)

subsection \<open>The reading position\<close>

























subsection \<open>Who the caller is\<close>

text \<open>
  Claim C10. For reading a repository, uploading into one, reading or updating a paper
  and deleting a paper, two requests that differ only in the authenticated caller have
  the same response and leave the same state.
\<close>

theorem caller_never_consulted:
  assumes "ownership_unchecked req"
  shows "handle upload_folder ex u1 req s = handle upload_folder ex u2 req s"
  using assms
  by (cases req)
     (simp_all add: get_repository_def api_upload_paper_def api_paper_detail_def
        api_delete_paper_def)

theorem caller_never_consulted_witness:
  "ownership_unchecked (DeletePaper 1)
   \<and> map user_id (repositories thesis_state) = [''U1'']
   \<and> handle example_folder example_extractors ''U1'' (DeletePaper 1) thesis_state
       = handle example_folder example_extractors ''U2'' (DeletePaper 1) thesis_state
   \<and> fst (fst (handle example_folder example_extractors ''U2'' (DeletePaper 1) thesis_state)) = 200
   \<and> papers (snd (handle example_folder example_extractors ''U2'' (DeletePaper 1) thesis_state)) = []"
proof -
  have a: "ownership_unchecked (DeletePaper 1)" by simp
  have b: "fst (fst (handle example_folder example_extractors ''U2'' (DeletePaper 1) thesis_state)) = 200
           \<and> papers (snd (handle example_folder example_extractors ''U2'' (DeletePaper 1) thesis_state)) = []
           \<and> map user_id (repositories thesis_state) = [''U1'']"
    by (simp add: thesis_state_eq notes_location_def string_defs route_defs Let_def)
  show ?thesis
    using a b caller_never_consulted [OF a, of example_folder example_extractors "''U1''" thesis_state "''U2''"]
    by simp
qed

section \<open>Further properties of the code\<close>

subsection \<open>Deleting a repository: rows, files and the owner check\<close>

lemma find_filter_None: "find P (filter (\<lambda>x. \<not> P x) xs) = None"
  by (induction xs) auto

text \<open>
  Either deletion of an existing repository, when it goes through, removes the repository
  row and exactly the paper rows that belong to it; reading the repository afterwards
  answers 404.
\<close>

theorem repository_delete_cascades_rows:
  assumes "find_repository s rid = Some repo"
    and "api_delete_repository uid rid s = (r, s')"
  shows "fst r = 200 \<and> find_repository s' rid = None \<and> papers_of s' rid = []
         \<and> fst (get_repository uid' rid s') = (404, NotFound)
         \<and> papers s' = filter (\<lambda>p. repository_id p \<noteq> rid) (papers s)
         \<and> repositories s' = filter (\<lambda>q. repo_id q \<noteq> rid) (repositories s)"
proof -
  have s': "s' = delete_rows rid s" and r: "fst r = 200"
    using assms by (auto simp: api_delete_repository_def)
  have gone: "find_repository s' rid = None"
    using find_filter_None [of "\<lambda>q. repo_id q = rid" "repositories s"]
    by (simp add: s' find_repository_def delete_rows_def)
  have none: "papers_of s' rid = []"
    by (simp add: s' papers_of_def delete_rows_def filter_empty_conv)
  show ?thesis
    using r gone none by (simp add: get_repository_def) (simp add: s' delete_rows_def)
qed

theorem repository_delete_cascades_rows_witness:
  "find_repository thesis_state 1
     = Some \<lparr>repo_id = 1, repo_name = ''Thesis'', created_at = 1, user_id = ''U1''\<rparr>
   \<and> fst (fst (api_delete_repository ''U1'' 1 thesis_state)) = 200
   \<and> find_repository (snd (api_delete_repository ''U1'' 1 thesis_state)) 1 = None
   \<and> papers (snd (api_delete_repository ''U1'' 1 thesis_state)) = []"
proof -
  obtain r s' where d: "api_delete_repository ''U1'' 1 thesis_state = (r, s')"
    by (cases "api_delete_repository ''U1'' 1 thesis_state")
  have "papers s' = filter (\<lambda>p. repository_id p \<noteq> 1) (papers thesis_state)"
    using repository_delete_cascades_rows [OF thesis_finds(1) d] by simp
  then have "papers s' = []" by (simp add: thesis_state_eq)
  then show ?thesis
    using repository_delete_cascades_rows [OF thesis_finds(1) d] thesis_finds(1) d by simp
qed

text \<open>Neither repository deletion changes any file on disk.\<close>

theorem repository_delete_keeps_files:
  "files (snd (api_delete_repository uid rid s)) = files s
   \<and> files (snd (delete_repository uid rid s)) = files s"
  by (simp add: api_delete_repository_def delete_repository_def delete_rows_def split: option.splits)

text \<open>
  \<open>delete_repository\<close> answers a caller who is not the stored owner with 403 and leaves
  the state as it is.
\<close>

theorem delete_repository_owner_check:
  assumes "find_repository s rid = Some repo" and "user_id repo \<noteq> uid"
  shows "delete_repository uid rid s = ((403, ErrorMsg ''Unauthorized access to repository''), s)"
  using assms by (simp add: delete_repository_def)

theorem delete_repository_owner_check_witness:
  "find_repository thesis_state 1
     = Some \<lparr>repo_id = 1, repo_name = ''Thesis'', created_at = 1, user_id = ''U1''\<rparr>
   \<and> ''U1'' \<noteq> ''U2''
   \<and> delete_repository ''U2'' 1 thesis_state
       = ((403, ErrorMsg ''Unauthorized access to repository''), thesis_state)"
proof -
  have "user_id \<lparr>repo_id = 1, repo_name = ''Thesis'', created_at = 1, user_id = ''U1''\<rparr> \<noteq> ''U2''"
    by simp
  from delete_repository_owner_check [OF thesis_finds(1) this] thesis_finds(1)
  show ?thesis by simp
qed

subsection \<open>Updating a paper with a value that is not a number\<close>

text \<open>
  When \<open>int\<close> raises \<open>ValueError\<close> on the \<open>last_page_seen\<close> value of a PUT, the answer is
  400 and the state is unchanged, whatever the request says about notes.
\<close>

theorem invalid_page_number_leaves_paper:
  assumes "find_paper s pid = Some p"
    and "body_last_page_seen data = Some v"
    and "py_int v = Inl ValueError"
  shows "api_paper_detail uid pid PUT data now s = ((400, ErrorMsg ''Invalid page number''), s)"
  using assms by (cases v) (simp_all add: api_paper_detail_def)

theorem invalid_page_number_leaves_paper_witness:
  "find_paper thesis_state 1 = Some notes_paper
   \<and> py_int (JStr ''abc'') = Inl ValueError
   \<and> api_paper_detail ''U1'' 1 PUT
        \<lparr>body_notes = Some (Some ''draft''), body_last_page_seen = Some (JStr ''abc'')\<rparr> 9 thesis_state
       = ((400, ErrorMsg ''Invalid page number''), thesis_state)"
proof -
  have v: "py_int (JStr ''abc'') = Inl ValueError"
    by (simp add: string_defs route_defs)
  have b: "body_last_page_seen
             \<lparr>body_notes = Some (Some ''draft''), body_last_page_seen = Some (JStr ''abc'')\<rparr>
           = Some (JStr ''abc'')"
    by simp
  from invalid_page_number_leaves_paper [OF thesis_finds(2) b v] thesis_finds(2) v
  show ?thesis by simp
qed

subsection \<open>Uploads that fail\<close>

text \<open>
  An upload that does not answer 201 adds no row to either table, and when it is
  \<open>file.save\<close> that raised, nothing at all has changed.
\<close>

theorem upload_failure_adds_no_row:
  assumes "api_upload_paper upload_folder uid rid form e s = (r, s')"
    and "fst r \<noteq> 201"
  shows "papers s' = papers s \<and> repositories s' = repositories s
         \<and> (save_raises e \<longrightarrow> s' = s)"
  using assms
  by (auto simp: api_upload_paper_def Let_def split: option.splits prod.splits if_splits)

theorem upload_failure_adds_no_row_witness:
  "fst (fst (api_upload_paper example_folder ''U1'' 1 notes_form
               (example_env\<lparr>save_raises := True\<rparr>) created_state)) = 500
   \<and> snd (api_upload_paper example_folder ''U1'' 1 notes_form
             (example_env\<lparr>save_raises := True\<rparr>) created_state) = created_state"
proof -
  obtain r s' where u: "api_upload_paper example_folder ''U1'' 1 notes_form
                          (example_env\<lparr>save_raises := True\<rparr>) created_state = (r, s')"
    by (cases "api_upload_paper example_folder ''U1'' 1 notes_form
                 (example_env\<lparr>save_raises := True\<rparr>) created_state")
  have r: "fst r = 500"
    using u by (auto simp: created_state_eq string_defs route_defs Let_def)
  then have "fst r \<noteq> 201" by simp
  from upload_failure_adds_no_row [OF u this] r u show ?thesis
    by (simp add: example_env_def)
qed

subsection \<open>Stored paths stay inside the storage root\<close>

lemma split_on_nonempty: "split_on sep s \<noteq> []"
  by (induction s) (auto split: list.splits)

lemma split_on_no_sep: "sep \<notin> set w \<Longrightarrow> split_on sep w = [w]"
  by (induction w) (auto split: list.splits)

lemma split_on_append:
  "split_on sep (a @ sep # b) = split_on sep a @ split_on sep b"
  by (induction a) (auto simp: split_on_nonempty split: list.splits)

lemma norm_comps_append:
  "norm_comps i acc (xs @ ys) = norm_comps i (norm_comps i acc xs) ys"
  by (induction xs arbitrary: acc) auto

lemma str_nat_digits: "set (str_nat n) \<subseteq> set ''0123456789''"
proof (induction n rule: str_nat.induct)
  case (1 n)
  have d: "digit_char k \<in> set ''0123456789''" for k
    unfolding digit_char_def by (rule nth_mem) simp
  show ?case
  proof (cases "n < 10")
    case True
    then show ?thesis using d [of n] by (subst str_nat.simps) simp
  next
    case False
    then show ?thesis using 1 d [of "n mod 10"] by (subst str_nat.simps) simp
  qed
qed

lemma str_nat_nonempty: "str_nat n \<noteq> []"
  by (subst str_nat.simps) simp

lemma str_nat_no_slash: "CHR ''/'' \<notin> set (str_nat n)"
  using str_nat_digits [of n] by auto

lemma str_nat_no_dot: "CHR ''.'' \<notin> set (str_nat n)"
  using str_nat_digits [of n] by auto

lemma set_strip_chars: "set (strip_chars cs s) \<subseteq> set s"
proof -
  have "set (dropWhile P xs) \<subseteq> set xs" for P and xs :: string
    by (meson set_dropWhileD subsetI)
  then have "set (rev (dropWhile P (rev (dropWhile Q s)))) \<subseteq> set s" for P Q
    by (metis set_rev subset_trans)
  then show ?thesis unfolding strip_chars_def .
qed

lemma secure_filename_chars: "c \<in> set (secure_filename f) \<Longrightarrow> filename_char c"
  using set_strip_chars [of "''._''"] unfolding secure_filename_def by fastforce

lemma secure_filename_no_slash: "CHR ''/'' \<notin> set (secure_filename f)"
  using secure_filename_chars [of "CHR ''/''" f]
  by (auto simp: filename_char_def is_upper_def is_lower_def is_digit_def)

lemma str_nat_plain: "plain_name (str_nat n)"
  using str_nat_no_slash [of n] str_nat_no_dot [of n] str_nat_nonempty [of n]
  by (auto simp: plain_name_def)

lemma stamped_plain:
  assumes "CHR ''/'' \<notin> set st"
  shows "plain_name (st @ ''_'' @ secure_filename f)"
proof -
  have u: "CHR ''_'' \<in> set (st @ ''_'' @ secure_filename f)" by simp
  have "CHR ''_'' \<notin> set ''.''" "CHR ''_'' \<notin> set ''..''" by simp_all
  with u have "st @ ''_'' @ secure_filename f \<noteq> ''.''" "st @ ''_'' @ secure_filename f \<noteq> ''..''"
    by metis+
  then show ?thesis using assms secure_filename_no_slash [of f] by (simp add: plain_name_def)
qed

lemma norm_comps_plain:
  "plain_name w \<Longrightarrow> norm_comps i acc [w] = acc @ [w]"
  by (simp add: plain_name_def)

lemma plain_last: "plain_name a \<Longrightarrow> last a \<noteq> CHR ''/''"
proof
  assume "plain_name a" and "last a = CHR ''/''"
  then have "a \<noteq> []" and "CHR ''/'' \<notin> set a" and "last a = CHR ''/''"
    by (simp_all add: plain_name_def)
  then show False using last_in_set [of a] by metis
qed

lemma path_join_plain:
  assumes "plain_name a" and "b \<noteq> [] \<longrightarrow> hd b \<noteq> CHR ''/''"
  shows "path_join a b = a @ ''/'' @ b"
  using assms plain_last [of a] by (auto simp: path_join_def plain_name_def)

lemma locate_path_join:
  assumes "plain_name w"
  shows "locate (path_join a w) = locate a @ [w]"
proof -
  have w: "CHR ''/'' \<notin> set w" "w \<noteq> []" using assms by (auto simp: plain_name_def)
  then have hd: "hd w \<noteq> CHR ''/''" by (cases w) auto
  show ?thesis
  proof (cases "a = [] \<or> last a = CHR ''/''")
    case False
    then have "path_join a w = a @ CHR ''/'' # w"
      using hd w by (simp add: path_join_def)
    then have "locate (path_join a w) = norm_comps True (locate a) [w]"
      using split_on_no_sep [OF w(1)]
      by (simp only: locate_def split_on_append norm_comps_append)
    then show ?thesis
      using norm_comps_plain [OF assms] by simp
  next
    case True
    then have j: "path_join a w = a @ w" using hd w by (auto simp: path_join_def)
    show ?thesis
    proof (cases "a = []")
      case True
      then have "locate (path_join a w) = norm_comps True [] [w]" "locate a = []"
        using j w by (simp_all add: locate_def split_on_no_sep)
      then show ?thesis using norm_comps_plain [OF assms] by simp
    next
      case False
      with True obtain a' where a: "a = a' @ ''/''"
        by (metis append_butlast_last_id)
      have "split_on CHR ''/'' a = split_on CHR ''/'' a' @ [[]]"
        using split_on_append [of "CHR ''/''" a' "[]"] a by simp
      moreover have "split_on CHR ''/'' (a @ w) = split_on CHR ''/'' a' @ [w]"
        using split_on_append [of "CHR ''/''" a' w] a w by (simp add: split_on_no_sep)
      ultimately have "locate (path_join a w) = norm_comps True (locate a) [w]"
        using j by (simp add: locate_def norm_comps_append)
      then show ?thesis using norm_comps_plain [OF assms] by simp
    qed
  qed
qed

lemma inside_extend: "inside folder (locate folder @ ws)"
  by (simp add: inside_def)


text \<open>
  The stored path of an uploaded paper is \<open><repository id>/<stamp>_<sanitised name>\<close>, two
  plain components, whatever the submitted file name is; joined with the storage root it
  names a location two levels below the root's, and the uploaded bytes are there.
\<close>

theorem stored_path_inside_root:
  assumes up: "api_upload_paper upload_folder uid rid form e s = ((201, PaperJson p), s')"
    and form: "form_file form = Some (f, bytes)"
    and st: "CHR ''/'' \<notin> set (stamp e)"
  shows "filepath p = str_nat rid @ ''/'' @ stamp e @ ''_'' @ secure_filename f
         \<and> locate (path_join upload_folder (filepath p))
             = locate upload_folder @ [str_nat rid, stamp e @ ''_'' @ secure_filename f]
         \<and> inside upload_folder (locate (path_join upload_folder (filepath p)))
         \<and> files s' (locate (path_join upload_folder (filepath p))) = Some bytes"
proof -
  define name where "name = stamp e @ ''_'' @ secure_filename f"
  have plain: "plain_name name" unfolding name_def using st by (rule stamped_plain)
  then have hd: "name \<noteq> [] \<longrightarrow> hd name \<noteq> CHR ''/''"
    by (cases name) (auto simp: plain_name_def)
  have fp: "filepath p = path_join (str_nat rid) name"
    and saved: "files s' (locate (path_join (path_join upload_folder (str_nat rid)) name)) = Some bytes"
    using up form
    by (auto simp: api_upload_paper_def Let_def name_def split: option.splits if_splits)
  have fp': "filepath p = str_nat rid @ ''/'' @ name"
    using fp path_join_plain [OF str_nat_plain hd] by simp
  have nohd: "hd (str_nat rid @ ''/'' @ name) \<noteq> CHR ''/''"
    using str_nat_plain [of rid] by (cases "str_nat rid") (auto simp: plain_name_def)
  have same: "path_join upload_folder (filepath p)
                = path_join (path_join upload_folder (str_nat rid)) name"
  proof -
    have n0: "str_nat rid \<noteq> []" "hd (str_nat rid) \<noteq> CHR ''/''"
      using str_nat_plain [of rid] by (cases "str_nat rid"; auto simp: plain_name_def)+
    have n1: "name \<noteq> []" "hd name \<noteq> CHR ''/''"
      using plain by (cases name; auto simp: plain_name_def)+
    have l: "last (str_nat rid) \<noteq> CHR ''/''"
      using str_nat_plain by (rule plain_last)
    show ?thesis
      using n0 n1 l nohd by (auto simp: fp' path_join_def)
  qed
  have loc: "locate (path_join upload_folder (filepath p))
               = locate upload_folder @ [str_nat rid, name]"
    using locate_path_join [OF plain] locate_path_join [OF str_nat_plain] same by simp
  show ?thesis
    using fp' loc saved same inside_extend [of upload_folder "[str_nat rid, name]"]
    by (simp add: name_def)
qed


theorem stored_path_inside_root_witness:
  "api_upload_paper example_folder ''U1'' 1 notes_form example_env created_state
     = ((201, PaperJson notes_paper), thesis_state)
   \<and> form_file notes_form = Some (''notes.docx'', ''BYTES'')
   \<and> CHR ''/'' \<notin> set (stamp example_env)
   \<and> inside example_folder (locate (path_join example_folder (filepath notes_paper)))
   \<and> files thesis_state (locate (path_join example_folder (filepath notes_paper))) = Some ''BYTES''"
proof -
  have f: "form_file notes_form = Some (''notes.docx'', ''BYTES'')"
    by (simp add: notes_form_def)
  have st: "CHR ''/'' \<notin> set (stamp example_env)"
    by (simp add: example_env_def)
  have "inside example_folder (locate (path_join example_folder (filepath notes_paper)))
        \<and> files thesis_state (locate (path_join example_folder (filepath notes_paper)))
            = Some ''BYTES''"
    using stored_path_inside_root [OF thesis_upload f st] by blast
  then show ?thesis using thesis_upload f st by blast
qed

subsection \<open>Reading back what was uploaded\<close>

lemma takeWhile_until: "x \<notin> set xs \<Longrightarrow> takeWhile (\<lambda>c. c \<noteq> x) (xs @ x # ys) = xs"
  by (induction xs) auto

lemma dropWhile_until: "x \<notin> set xs \<Longrightarrow> dropWhile (\<lambda>c. c \<noteq> x) (xs @ x # ys) = x # ys"
  by (induction xs) auto

lemma basename_join:
  assumes "CHR ''/'' \<notin> set w"
  shows "basename (a @ ''/'' @ w) = w"
proof -
  have "takeWhile (\<lambda>c. c \<noteq> CHR ''/'') (rev w @ CHR ''/'' # rev a) = rev w"
    using assms by (simp add: takeWhile_until)
  then show ?thesis by (simp add: basename_def)
qed

lemma dirname_join:
  assumes "CHR ''/'' \<notin> set w" and "plain_name a"
  shows "dirname (a @ ''/'' @ w) = a"
proof -
  have a: "a \<noteq> []" "CHR ''/'' \<notin> set a" using assms(2) by (auto simp: plain_name_def)
  have "dropWhile (\<lambda>c. c \<noteq> CHR ''/'') (rev w @ CHR ''/'' # rev a) = CHR ''/'' # rev a"
    using assms(1) by (simp add: dropWhile_until)
  then have head: "rev (dropWhile (\<lambda>c. c \<noteq> CHR ''/'') (rev (a @ ''/'' @ w))) = a @ ''/''"
    by simp
  have notall: "\<not> list_all (\<lambda>c. c = CHR ''/'') (a @ ''/'')"
    using a by (cases a) (auto simp: list_all_iff)
  have "dropWhile (\<lambda>c. c = CHR ''/'') (rev a) = rev a"
    using a by (cases "rev a") auto
  then have "rev (dropWhile (\<lambda>c. c = CHR ''/'') (rev (a @ ''/''))) = a"
    by simp
  then show ?thesis
    unfolding dirname_def Let_def head using notall by simp
qed

lemma normpath_plain:
  assumes "plain_name w"
  shows "normpath w = w"
proof -
  have w: "w \<noteq> []" "CHR ''/'' \<notin> set w" using assms by (auto simp: plain_name_def)
  then have "\<not> isabs w" by (cases w) (auto simp: isabs_def)
  then show ?thesis
    using w norm_comps_plain [OF assms, of False "[]"]
    by (simp add: normpath_def split_on_no_sep Let_def)
qed

lemma safe_join_plain:
  assumes "plain_name w" and "directory \<noteq> []"
  shows "safe_join directory w = Some (path_join directory w)"
proof -
  have w: "w \<noteq> []" "CHR ''/'' \<notin> set w" "w \<noteq> ''..''" using assms by (auto simp: plain_name_def)
  then have "\<not> isabs w" by (cases w) (auto simp: isabs_def)
  moreover have "take 3 w \<noteq> ''../''"
  proof
    assume "take 3 w = ''../''"
    then have "CHR ''/'' \<in> set (take 3 w)" by simp
    then show False using w(2) by (meson in_set_takeD)
  qed
  ultimately show ?thesis
    using w assms(2) by (simp add: safe_join_def normpath_plain [OF assms(1)] Let_def)
qed

lemma path_join_nonempty: "b \<noteq> [] \<Longrightarrow> path_join a b \<noteq> []"
  by (auto simp: path_join_def)


text \<open>
  After a successful upload, the file-serving route, asked for the paper's stored path,
  answers 200 with exactly the uploaded bytes.
\<close>

theorem upload_then_serve:
  assumes up: "api_upload_paper upload_folder uid rid form e s = ((201, PaperJson p), s')"
    and form: "form_file form = Some (f, bytes)"
    and st: "CHR ''/'' \<notin> set (stamp e)"
  shows "api_serve_paper upload_folder (filepath p) s' = ((200, FileContent bytes), s')"
proof -
  define name where "name = stamp e @ ''_'' @ secure_filename f"
  have plain: "plain_name name" unfolding name_def using st by (rule stamped_plain)
  then have hd: "name \<noteq> [] \<longrightarrow> hd name \<noteq> CHR ''/''" and ns: "CHR ''/'' \<notin> set name"
    by (cases name; auto simp: plain_name_def)+
  have fp: "filepath p = path_join (str_nat rid) name"
    and saved: "files s' (locate (path_join (path_join upload_folder (str_nat rid)) name)) = Some bytes"
    using up form
    by (auto simp: api_upload_paper_def Let_def name_def split: option.splits if_splits)
  have fp': "filepath p = str_nat rid @ ''/'' @ name"
    using fp path_join_plain [OF str_nat_plain hd] by simp
  have d: "dirname (filepath p) = str_nat rid" and b: "basename (filepath p) = name"
    using dirname_join [OF ns str_nat_plain] basename_join [OF ns] by (simp_all add: fp')
  have ne: "path_join upload_folder (str_nat rid) \<noteq> []"
    using path_join_nonempty str_nat_nonempty by simp
  show ?thesis
    using saved safe_join_plain [OF plain ne]
    by (simp add: api_serve_paper_def send_from_directory_def d b Let_def)
qed
theorem upload_then_serve_witness:
  "api_upload_paper example_folder ''U1'' 1 notes_form example_env created_state
     = ((201, PaperJson notes_paper), thesis_state)
   \<and> form_file notes_form = Some (''notes.docx'', ''BYTES'')
   \<and> CHR ''/'' \<notin> set (stamp example_env)
   \<and> api_serve_paper example_folder (filepath notes_paper) thesis_state
       = ((200, FileContent ''BYTES''), thesis_state)"
proof -
  have f: "form_file notes_form = Some (''notes.docx'', ''BYTES'')"
    by (simp add: notes_form_def)
  have st: "CHR ''/'' \<notin> set (stamp example_env)"
    by (simp add: example_env_def)
  from upload_then_serve [OF thesis_upload f st] thesis_upload f st
  show ?thesis by simp
qed

subsection \<open>Deleting a paper\<close>

text \<open>
  Deleting an existing paper answers 200; afterwards the paper is not found and no file
  is at the location of its stored path.
\<close>

theorem api_delete_paper_removes_row_and_file:
  assumes "find_paper s pid = Some p"
    and "api_delete_paper upload_folder uid pid s = (r, s')"
  shows "fst r = 200 \<and> find_paper s' pid = None
         \<and> files s' (locate (path_join upload_folder (filepath p))) = None"
  using assms find_filter_None [of "\<lambda>q. paper_id q = pid" "papers s"]
  by (auto simp: api_delete_paper_def Let_def find_paper_def)

theorem api_delete_paper_removes_row_and_file_witness:
  "find_paper thesis_state 1 = Some notes_paper
   \<and> files thesis_state (locate (path_join example_folder (filepath notes_paper))) = Some ''BYTES''
   \<and> fst (fst (api_delete_paper example_folder ''U1'' 1 thesis_state)) = 200
   \<and> find_paper (snd (api_delete_paper example_folder ''U1'' 1 thesis_state)) 1 = None
   \<and> files (snd (api_delete_paper example_folder ''U1'' 1 thesis_state))
        (locate (path_join example_folder (filepath notes_paper))) = None"
proof -
  obtain r s' where d: "api_delete_paper example_folder ''U1'' 1 thesis_state = (r, s')"
    by (cases "api_delete_paper example_folder ''U1'' 1 thesis_state")
  have before: "files thesis_state (locate (path_join example_folder (filepath notes_paper)))
                  = Some ''BYTES''"
    by (simp add: thesis_state_eq notes_paper_def notes_location_def string_defs route_defs)
  from api_delete_paper_removes_row_and_file [OF thesis_finds(2) d] thesis_finds(2) d before
  show ?thesis by simp
qed

subsection \<open>Invariants of the tables\<close>

lemma find_None_iff: "find P xs = None \<longleftrightarrow> (\<forall>x \<in> set xs. \<not> P x)"
  by (induction xs) auto

lemma find_Some_holds: "find P xs = Some x \<Longrightarrow> x \<in> set xs \<and> P x"
  by (induction xs) (auto split: if_splits)

lemma create_repository_names_unique:
  assumes "names_unique s"
  shows "names_unique (snd (create_repository uid j n t s))"
proof (cases "create_repository uid j n t s = ((201, RepoJson \<lparr>repo_id = next_id (map repo_id (repositories s)), repo_name = py_strip (case n of None \<Rightarrow> [] | Some x \<Rightarrow> x), created_at = t, user_id = uid\<rparr> []), s\<lparr>repositories := repositories s @ [\<lparr>repo_id = next_id (map repo_id (repositories s)), repo_name = py_strip (case n of None \<Rightarrow> [] | Some x \<Rightarrow> x), created_at = t, user_id = uid\<rparr>]\<rparr>) \<and> find (\<lambda>r. repo_name r = py_strip (case n of None \<Rightarrow> [] | Some x \<Rightarrow> x) \<and> user_id r = uid) (repositories s) = None")
  case True
  then have none: "\<forall>r \<in> set (repositories s). \<not> (repo_name r = py_strip (case n of None \<Rightarrow> [] | Some x \<Rightarrow> x) \<and> user_id r = uid)"
    by (simp add: find_None_iff)
  then have "(py_strip (case n of None \<Rightarrow> [] | Some x \<Rightarrow> x), uid) \<notin> set (map repo_key (repositories s))"
    by (auto simp: repo_key_def)
  then show ?thesis using True assms by (simp add: names_unique_def repo_key_def)
next
  case False
  then have "snd (create_repository uid j n t s) = s"
    by (auto simp: create_repository_def Let_def split: option.splits)
  then show ?thesis using assms by simp
qed

lemma delete_rows_names_unique: "names_unique s \<Longrightarrow> names_unique (delete_rows rid s)"
  by (simp add: names_unique_def delete_rows_def distinct_map_filter)

lemma repositories_unchanged:
  "repositories (snd (api_upload_paper f uid rid form e s)) = repositories s"
  "repositories (snd (api_paper_detail uid pid m d t s)) = repositories s"
  "repositories (snd (api_delete_paper f uid pid s)) = repositories s"
  "repositories (snd (upload_file f ex rf s)) = repositories s"
  "repositories (snd (api_serve_paper f q s)) = repositories s"
  "repositories (snd (get_repository uid rid s)) = repositories s"
  by (auto simp: api_upload_paper_def api_paper_detail_def api_delete_paper_def upload_file_def
        api_serve_paper_def get_repository_def commit_paper_def Let_def
        split: option.splits prod.splits sum.splits json.splits py_exception.splits)

lemma handle_names_unique:
  assumes "names_unique s"
  shows "names_unique (snd (handle f ex uid req s))"
proof (cases req)
  case (CreateRepository j n t)
  then show ?thesis using assms create_repository_names_unique by simp
next
  case (ApiDeleteRepository rid)
  then show ?thesis using assms delete_rows_names_unique
    by (simp add: api_delete_repository_def split: option.splits)
next
  case (DeleteRepository rid)
  then show ?thesis using assms delete_rows_names_unique
    by (simp add: delete_repository_def split: option.splits)
qed (use assms in \<open>simp_all add: names_unique_def repositories_unchanged\<close>)

text \<open>
  In every state reached from the empty one, no two repositories of the same owner have
  the same name.
\<close>

theorem names_unique_reachable:
  "names_unique (run upload_folder ex reqs init_state)"
proof -
  have "names_unique s \<Longrightarrow> names_unique (run upload_folder ex reqs s)" for s
  proof (induction reqs arbitrary: s)
    case Nil
    then show ?case by simp
  next
    case (Cons a reqs)
    then show ?case using handle_names_unique by (cases a) simp
  qed
  moreover have "names_unique init_state" by (simp add: names_unique_def init_state_def)
  ultimately show ?thesis by blast
qed

lemma commit_paper_owned:
  assumes "papers_owned s" and "repository_id p \<in> set (map repo_id (repositories s))"
  shows "papers_owned (snd (commit_paper p s))"
  using assms by (auto simp: papers_owned_def commit_paper_def list_all_iff)

lemma find_paper_owned:
  assumes "papers_owned s" and "find_paper s pid = Some p"
  shows "repository_id p \<in> set (map repo_id (repositories s))"
  using assms find_Some_holds [of "\<lambda>q. paper_id q = pid" "papers s" p]
  by (auto simp: papers_owned_def find_paper_def list_all_iff)

lemma api_paper_detail_owned:
  assumes "papers_owned s"
  shows "papers_owned (snd (api_paper_detail uid pid m d t s))"
proof (cases "find_paper s pid")
  case None
  then show ?thesis using assms by (simp add: api_paper_detail_def)
next
  case (Some p)
  have o: "repository_id p \<in> set (map repo_id (repositories s))"
    using assms Some by (rule find_paper_owned)
  have c: "repository_id q = repository_id p \<Longrightarrow> papers_owned (snd (commit_paper q s))" for q
    using commit_paper_owned [OF assms] o by simp
  show ?thesis
    using Some assms
    by (auto simp: api_paper_detail_def Let_def intro!: c
          split: option.splits json.splits sum.splits py_exception.splits)
qed

lemma delete_rows_owned: "papers_owned s \<Longrightarrow> papers_owned (delete_rows rid s)"
  by (auto simp: papers_owned_def delete_rows_def list_all_iff)

lemma api_upload_paper_owned:
  assumes "papers_owned s"
  shows "papers_owned (snd (api_upload_paper f uid rid form e s))"
proof (cases "find_repository s rid")
  case None
  then show ?thesis using assms by (simp add: api_upload_paper_def)
next
  case (Some repo)
  then have "repo_id repo \<in> set (map repo_id (repositories s))"
    using find_Some_holds [of "\<lambda>r. repo_id r = rid" "repositories s" repo]
    by (auto simp: find_repository_def)
  then show ?thesis
    using Some assms
    by (auto simp: api_upload_paper_def Let_def papers_owned_def list_all_iff
          split: option.splits prod.splits)
qed

lemma handle_owned:
  assumes "papers_owned s"
  shows "papers_owned (snd (handle f ex uid req s))"
proof (cases req)
  case (CreateRepository j n t)
  then show ?thesis using assms
    by (auto simp: create_repository_def papers_owned_def list_all_iff Let_def split: option.splits)
next
  case (GetRepository rid)
  then show ?thesis using assms by (simp add: get_repository_def split: option.splits)
next
  case (ApiDeleteRepository rid)
  then show ?thesis using assms delete_rows_owned
    by (simp add: api_delete_repository_def split: option.splits)
next
  case (DeleteRepository rid)
  then show ?thesis using assms delete_rows_owned
    by (simp add: delete_repository_def split: option.splits)
next
  case (UploadPaper rid form e)
  then show ?thesis using assms api_upload_paper_owned by simp
next
  case (PaperDetail pid m d t)
  then show ?thesis using assms api_paper_detail_owned by simp
next
  case (DeletePaper pid)
  then show ?thesis using assms
    by (auto simp: api_delete_paper_def papers_owned_def list_all_iff Let_def split: option.splits)
next
  case (ServePaper q)
  then show ?thesis using assms by (simp add: api_serve_paper_def)
next
  case (UploadFile rf)
  then show ?thesis using assms
    by (auto simp: upload_file_def papers_owned_def Let_def split: option.splits prod.splits sum.splits)
qed

text \<open>
  In every state reached from the empty one, every paper belongs to a repository that
  exists: no deletion leaves a paper row behind.
\<close>

theorem papers_owned_reachable:
  "papers_owned (run upload_folder ex reqs init_state)"
proof -
  have "papers_owned s \<Longrightarrow> papers_owned (run upload_folder ex reqs s)" for s
  proof (induction reqs arbitrary: s)
    case Nil
    then show ?case by simp
  next
    case (Cons a reqs)
    then show ?case using handle_owned by (cases a) simp
  qed
  moreover have "papers_owned init_state" by (simp add: papers_owned_def init_state_def)
  ultimately show ?thesis by blast
qed

end
